theory Spec2Isabelle
  imports Complex_Main "HOL-Library.Signed_Division"
begin

section \<open>TimerEngine: the state and commands of \<open>useTimer\<close>\<close>

text \<open>
  The hook \<open>useTimer\<close> holds four pieces of React state. A JavaScript \<open>number\<close> that
  only ever takes integer values is modelled as \<open>int\<close>.
\<close>

record timer =
  seconds :: int
  isRunning :: bool
  isCountingDown :: bool
  isAutoRestart :: bool

text \<open>The values given to \<open>useState\<close> at mount.\<close>

definition initial :: timer where
  "initial = \<lparr>seconds = 0, isRunning = False, isCountingDown = False, isAutoRestart = False\<rparr>"

text \<open>
  The effect of \<open>useTimer\<close> registers at most one interval, chosen by the flags; its
  dependency list holds all three flags, so the registered callback always belongs to the
  current flags. The decrementing callback closes over \<open>isAutoRestart\<close>.
\<close>

datatype driver = Incrementer | Decrementer bool

definition useEffect_driver :: "timer \<Rightarrow> driver option" where
  "useEffect_driver s =
     (if isRunning s \<and> \<not> isCountingDown s then Some Incrementer
      else if isCountingDown s then Some (Decrementer (isAutoRestart s))
      else None)"

text \<open>One firing of the registered interval callback.\<close>

fun fire :: "driver \<Rightarrow> timer \<Rightarrow> timer" where
  "fire Incrementer s = s\<lparr>seconds := seconds s + 1\<rparr>"
| "fire (Decrementer auto) s =
     (if seconds s \<le> 0
      then (let s1 = s\<lparr>isCountingDown := False\<rparr>;
                s2 = (if auto then s1\<lparr>isRunning := True\<rparr> else s1)
            in s2\<lparr>seconds := 0\<rparr>)
      else s\<lparr>seconds := seconds s - 1\<rparr>)"

text \<open>A tick: the callback of the active driver fires; with no driver nothing happens.\<close>

definition tick :: "timer \<Rightarrow> timer" where
  "tick s = (case useEffect_driver s of None \<Rightarrow> s | Some d \<Rightarrow> fire d s)"

definition start :: "timer \<Rightarrow> timer" where
  "start s = (if \<not> isRunning s \<and> \<not> isCountingDown s then s\<lparr>isRunning := True\<rparr> else s)"

definition stop :: "timer \<Rightarrow> timer" where
  "stop s =
     (if isRunning s
      then (let s1 = s\<lparr>isRunning := False\<rparr>
            in if seconds s > 0 then s1\<lparr>isCountingDown := True\<rparr> else s1)
      else s)"

definition reset :: "timer \<Rightarrow> timer" where
  "reset s = s\<lparr>isRunning := False, isCountingDown := False, seconds := 0\<rparr>"

definition toggleAutoRestart :: "timer \<Rightarrow> timer" where
  "toggleAutoRestart s = s\<lparr>isAutoRestart := \<not> isAutoRestart s\<rparr>"

text \<open>Executions: the four commands and the tick, applied in order.\<close>

datatype event = Start | Stop | Reset | ToggleAutoRestart | Tick

fun step :: "timer \<Rightarrow> event \<Rightarrow> timer" where
  "step s Start = start s"
| "step s Stop = stop s"
| "step s Reset = reset s"
| "step s ToggleAutoRestart = toggleAutoRestart s"
| "step s Tick = tick s"

definition run :: "event list \<Rightarrow> timer \<Rightarrow> timer" where
  "run evs s = foldl step s evs"

section \<open>TimerDisplay: status text\<close>

text \<open>
  \<open>getStatusText\<close> closes over the props \<open>seconds\<close>, \<open>isRunning\<close>, \<open>isCountingDown\<close>
  of \<open>TimerDisplay\<close>; \<open>Timer\<close> passes exactly these three fields of the hook's state.
\<close>

definition getStatusText :: "int \<Rightarrow> bool \<Rightarrow> bool \<Rightarrow> string" where
  "getStatusText secs running countingDown =
     (if countingDown then ''Counting Down''
      else if running then ''Running''
      else if secs = 0 then ''Ready''
      else ''Stopped'')"

definition displayProps :: "timer \<Rightarrow> int \<times> bool \<times> bool" where
  "displayProps s = (seconds s, isRunning s, isCountingDown s)"

definition statusOf :: "timer \<Rightarrow> string" where
  "statusOf s = (case displayProps s of (secs, running, countingDown) \<Rightarrow>
                   getStatusText secs running countingDown)"

section \<open>TimerDisplay: label formatting\<close>

text \<open>
  \<open>Number.prototype.toString\<close> on an integer: its decimal digits, most significant
  first, after a minus sign when it is negative.
\<close>

definition digit_char :: "nat \<Rightarrow> char" where
  "digit_char d = ''0123456789'' ! d"

fun digits_nat :: "nat \<Rightarrow> string" where
  "digits_nat n =
     (if n < 10 then [digit_char n] else digits_nat (n div 10) @ [digit_char (n mod 10)])"

declare digits_nat.simps [simp del]

definition toString :: "int \<Rightarrow> string" where
  "toString i = (if i < 0 then CHR ''-'' # digits_nat (nat (- i)) else digits_nat (nat i))"

text \<open>
  \<open>String.prototype.padStart\<close>: a string already as long as the target length, or an
  empty pad string, gives the string back; otherwise the pad string is repeated and cut
  to the missing length.
\<close>

definition padStart :: "nat \<Rightarrow> string \<Rightarrow> string \<Rightarrow> string" where
  "padStart targetLength padString str =
     (if targetLength \<le> length str \<or> padString = [] then str
      else take (targetLength - length str)
             (concat (replicate (targetLength - length str) padString)) @ str)"

text \<open>
  \<open>Math.floor(totalSeconds / 60)\<close> rounds towards minus infinity, as \<open>div\<close> on \<open>int\<close>
  does; JavaScript's \<open>%\<close> takes the sign of the dividend, which is \<open>smod\<close>.
\<close>

definition formatTime :: "int \<Rightarrow> string" where
  "formatTime totalSeconds =
     (let mins = totalSeconds div 60;
          secs = totalSeconds smod 60
      in padStart 2 ''0'' (toString mins) @ '':'' @ padStart 2 ''0'' (toString secs))"

text \<open>
  Reading a label back, to say what a field of it denotes: the value of a string of
  decimal digits.
\<close>

definition is_digit :: "char \<Rightarrow> bool" where
  "is_digit c = (c \<in> set ''0123456789'')"

definition digit_val :: "char \<Rightarrow> nat" where
  "digit_val c = of_char c - of_char CHR ''0''"

definition read_dec :: "string \<Rightarrow> nat" where
  "read_dec str = foldl (\<lambda>acc c. 10 * acc + digit_val c) 0 str"

section \<open>TimerDisplay: the progress effect\<close>

definition RADIUS :: real where
  "RADIUS = 80"

definition CIRCUMFERENCE :: real where
  "CIRCUMFERENCE = 2 * pi * RADIUS"

definition targetProgress :: "int \<Rightarrow> real" where
  "targetProgress secs = (real_of_int (secs smod 60) / 60) * CIRCUMFERENCE"

text \<open>
  The effect writes to the shared value \<open>animatedProgress\<close>: either a plain number, which
  takes hold at once, or \<open>withTiming(target, {duration})\<close>, which eases from the current
  value to the target. The model records the writes in the order the effect makes them,
  together with the new content of \<open>prevMinuteRef\<close>.
\<close>

datatype assignment = Assign real | AssignWithTiming real nat

definition progressEffect :: "int \<Rightarrow> bool \<Rightarrow> int \<Rightarrow> assignment list \<times> int" where
  "progressEffect secs countingDown prevMinuteRef =
     (let currentMinute = secs div 60;
          (snap, prevMinuteRef') =
             (if currentMinute \<noteq> prevMinuteRef \<and> \<not> countingDown
              then ([Assign 0], currentMinute)
              else ([], prevMinuteRef))
      in (snap @ [AssignWithTiming (targetProgress secs) 300], prevMinuteRef'))"

text \<open>
  A sequence of renders: each element is the pair of props \<open>(seconds, isCountingDown)\<close>
  the effect runs with; the writes accumulate and \<open>prevMinuteRef\<close> is threaded through.
\<close>

fun progressEffects :: "(int \<times> bool) list \<Rightarrow> int \<Rightarrow> assignment list \<times> int" where
  "progressEffects [] prevMinuteRef = ([], prevMinuteRef)"
| "progressEffects ((secs, countingDown) # rest) prevMinuteRef =
     (case progressEffect secs countingDown prevMinuteRef of (ws, prev') \<Rightarrow>
        (case progressEffects rest prev' of (ws', prev'') \<Rightarrow> (ws @ ws', prev'')))"

section \<open>Facts about the engine\<close>

lemma run_Nil [simp]: "run [] s = s"
  by (simp add: run_def)

lemma run_Cons [simp]: "run (e # evs) s = run evs (step s e)"
  by (simp add: run_def)

lemma tick_seconds_nonneg:
  fixes s :: timer
  assumes "0 \<le> seconds s"
  shows "0 \<le> seconds (tick s)"
  using assms
  by (cases "useEffect_driver s")
     (auto simp: tick_def useEffect_driver_def Let_def split: if_splits)

lemma step_seconds_nonneg:
  fixes s :: timer
  assumes "0 \<le> seconds s"
  shows "0 \<le> seconds (step s e)"
proof (cases e)
  case Tick
  with assms show ?thesis by (simp add: tick_seconds_nonneg)
qed (use assms in \<open>simp_all add: start_def stop_def reset_def toggleAutoRestart_def Let_def\<close>)

lemma run_seconds_nonneg:
  fixes s :: timer
  assumes "0 \<le> seconds s"
  shows "0 \<le> seconds (run evs s)"
  using assms
proof (induction evs arbitrary: s)
  case Nil
  then show ?case by simp
next
  case (Cons e evs)
  from Cons.prems have "0 \<le> seconds (step s e)" by (rule step_seconds_nonneg)
  then show ?case by (simp add: Cons.IH)
qed

lemma countdown_tick_nonneg:
  fixes s :: timer
  assumes "isCountingDown s"
  shows "0 \<le> seconds (tick s)"
  using assms by (simp add: tick_def useEffect_driver_def Let_def)

text \<open>
  While the count is positive the decrementing callback only lowers it; \<open>k\<close> ticks of
  a countdown that starts at \<open>k\<close> or more change nothing but the count.
\<close>

lemma countdown_ticks:
  fixes s :: timer
  assumes "isCountingDown s" "int k \<le> seconds s"
  shows "(tick ^^ k) s = s\<lparr>seconds := seconds s - int k\<rparr>"
  using assms(2)
proof (induction k)
  case 0
  show ?case by simp
next
  case (Suc k)
  then have prev: "(tick ^^ k) s = s\<lparr>seconds := seconds s - int k\<rparr>" by simp
  from Suc.prems have pos: "0 < seconds s - int k" by simp
  have "(tick ^^ Suc k) s = tick (s\<lparr>seconds := seconds s - int k\<rparr>)"
    by (simp add: prev)
  also have "\<dots> = s\<lparr>seconds := seconds s - int (Suc k)\<rparr>"
    using assms(1) pos by (simp add: tick_def useEffect_driver_def)
  finally show ?case .
qed

text \<open>
  The firing that finds the count at 0 (or below) ends the countdown and, with auto-restart
  captured as true, sets the running flag.
\<close>

lemma countdown_finish:
  fixes s :: timer
  assumes "isCountingDown s" "seconds s \<le> 0"
  shows "tick s = s\<lparr>isCountingDown := False,
                    isRunning := (isAutoRestart s \<or> isRunning s), seconds := 0\<rparr>"
  using assms by (simp add: tick_def useEffect_driver_def Let_def)

lemma running_tick:
  fixes s :: timer
  assumes "isRunning s" "\<not> isCountingDown s"
  shows "tick s = s\<lparr>seconds := seconds s + 1\<rparr>"
  using assms by (simp add: tick_def useEffect_driver_def)

text \<open>
  With the count at 0 and both flags false no interval is registered; only \<open>start\<close>
  leaves that state.
\<close>

lemma displayProps_initial: "displayProps initial = (0, False, False)"
  by (simp add: displayProps_def initial_def)

lemma idle_step:
  fixes s :: timer
  assumes "displayProps s = (0, False, False)" "e \<noteq> Start"
  shows "displayProps (step s e) = (0, False, False)"
  using assms
  by (cases e)
     (simp_all add: displayProps_def stop_def reset_def toggleAutoRestart_def tick_def
        useEffect_driver_def)

lemma idle_run:
  fixes s :: timer
  assumes "displayProps s = (0, False, False)" "Start \<notin> set evs"
  shows "displayProps (run evs s) = (0, False, False)"
  using assms
proof (induction evs arbitrary: s)
  case Nil
  then show ?case by simp
next
  case (Cons e evs)
  from Cons.prems have "displayProps (step s e) = (0, False, False)"
    by (intro idle_step) auto
  with Cons show ?case by simp
qed

lemma idle_status:
  fixes s :: timer
  assumes "displayProps s = (0, False, False)"
  shows "statusOf s = ''Ready''"
  using assms by (simp add: statusOf_def getStatusText_def)

section \<open>Facts about the label\<close>

lemma digit_char_props:
  assumes "d < 10"
  shows "digit_val (digit_char d) = d" "is_digit (digit_char d)"
        "0 < d \<Longrightarrow> digit_char d \<noteq> CHR ''0''"
proof -
  from assms have "d \<in> {0, 1, 2, 3, 4, 5, 6, 7, 8, 9}" by auto
  then show "digit_val (digit_char d) = d" "is_digit (digit_char d)"
            "0 < d \<Longrightarrow> digit_char d \<noteq> CHR ''0''"
    by (auto simp: digit_val_def digit_char_def is_digit_def)
qed

lemma read_dec_snoc: "read_dec (xs @ [c]) = 10 * read_dec xs + digit_val c"
  by (simp add: read_dec_def)

lemma read_dec_single: "read_dec [c] = digit_val c"
  by (simp add: read_dec_def)

lemma read_dec_zero_Cons: "read_dec (CHR ''0'' # xs) = read_dec xs"
  by (simp add: read_dec_def digit_val_def)

lemma digits_nat_small: "n < 10 \<Longrightarrow> digits_nat n = [digit_char n]"
  by (simp add: digits_nat.simps)

lemma digits_nat_large:
  "10 \<le> n \<Longrightarrow> digits_nat n = digits_nat (n div 10) @ [digit_char (n mod 10)]"
  by (subst digits_nat.simps) simp

lemma digits_nat_nonempty: "digits_nat n \<noteq> []"
  by (subst digits_nat.simps) simp

lemma read_dec_digits_nat: "read_dec (digits_nat n) = n"
proof (induction n rule: digits_nat.induct)
  case (1 n)
  show ?case
  proof (cases "n < 10")
    case True
    then show ?thesis
      by (simp add: digits_nat_small read_dec_single digit_char_props(1))
  next
    case False
    then have "read_dec (digits_nat (n div 10)) = n div 10" by (rule "1.IH")
    moreover have "digit_val (digit_char (n mod 10)) = n mod 10"
      by (rule digit_char_props(1)) simp
    ultimately show ?thesis
      using False by (simp add: digits_nat_large read_dec_snoc)
  qed
qed

lemma digits_nat_all_digits: "list_all is_digit (digits_nat n)"
proof (induction n rule: digits_nat.induct)
  case (1 n)
  show ?case
  proof (cases "n < 10")
    case True
    then show ?thesis by (simp add: digits_nat_small digit_char_props(2))
  next
    case False
    then have "list_all is_digit (digits_nat (n div 10))" by (rule "1.IH")
    moreover have "is_digit (digit_char (n mod 10))"
      by (rule digit_char_props(2)) simp
    ultimately show ?thesis
      using False by (simp add: digits_nat_large)
  qed
qed

lemma digits_nat_no_leading_zero: "0 < n \<Longrightarrow> hd (digits_nat n) \<noteq> CHR ''0''"
proof (induction n rule: digits_nat.induct)
  case (1 n)
  show ?case
  proof (cases "n < 10")
    case True
    with "1.prems" show ?thesis by (simp add: digits_nat_small digit_char_props(3))
  next
    case False
    then have "0 < n div 10" by simp
    with False have "hd (digits_nat (n div 10)) \<noteq> CHR ''0''" by (intro "1.IH")
    with False show ?thesis
      by (simp add: digits_nat_large digits_nat_nonempty)
  qed
qed

lemma digits_nat_length_ge2: "10 \<le> n \<Longrightarrow> 2 \<le> length (digits_nat n)"
proof -
  assume "10 \<le> n"
  moreover have "1 \<le> length (digits_nat (n div 10))"
    using digits_nat_nonempty [of "n div 10"] by (cases "digits_nat (n div 10)") simp_all
  ultimately show ?thesis by (simp add: digits_nat_large)
qed

lemma digits_nat_length_two: "10 \<le> n \<Longrightarrow> n < 100 \<Longrightarrow> length (digits_nat n) = 2"
proof -
  assume "10 \<le> n" "n < 100"
  then have "n div 10 < 10" by simp
  with \<open>10 \<le> n\<close> show ?thesis by (simp add: digits_nat_large digits_nat_small)
qed

lemma padStart_two_short: "length str = 1 \<Longrightarrow> padStart 2 ''0'' str = CHR ''0'' # str"
  by (simp add: padStart_def)

lemma padStart_two_long: "2 \<le> length str \<Longrightarrow> padStart 2 ''0'' str = str"
  by (simp add: padStart_def)

text \<open>
  A field of the label: a non-negative number sent through \<open>toString\<close> and
  \<open>padStart(2, '0')\<close>.
\<close>

lemma field_props:
  assumes "0 \<le> k"
  shows "2 \<le> length (padStart 2 ''0'' (toString k))
         \<and> list_all is_digit (padStart 2 ''0'' (toString k))
         \<and> int (read_dec (padStart 2 ''0'' (toString k))) = k
         \<and> (2 < length (padStart 2 ''0'' (toString k)) \<longrightarrow>
               hd (padStart 2 ''0'' (toString k)) \<noteq> CHR ''0'')
         \<and> (k < 100 \<longrightarrow> length (padStart 2 ''0'' (toString k)) = 2)"
proof (cases "nat k < 10")
  case True
  from assms have ts: "toString k = digits_nat (nat k)" by (simp add: toString_def)
  have zero: "is_digit CHR ''0''" by (simp add: is_digit_def)
  from True have p: "padStart 2 ''0'' (toString k) = [CHR ''0'', digit_char (nat k)]"
    by (simp add: ts digits_nat_small padStart_two_short)
  have "list_all is_digit [CHR ''0'', digit_char (nat k)]"
    using True zero by (simp add: digit_char_props(2))
  moreover have "int (read_dec [CHR ''0'', digit_char (nat k)]) = k"
    using True assms by (simp add: read_dec_zero_Cons read_dec_single digit_char_props(1))
  ultimately show ?thesis
    unfolding p by simp
next
  case False
  from assms have ts: "toString k = digits_nat (nat k)" by (simp add: toString_def)
  from False have big: "10 \<le> nat k" by simp
  then have p: "padStart 2 ''0'' (toString k) = digits_nat (nat k)"
    by (simp add: ts padStart_two_long digits_nat_length_ge2)
  have "2 \<le> length (digits_nat (nat k))"
    using big by (rule digits_nat_length_ge2)
  moreover have "list_all is_digit (digits_nat (nat k))"
    by (rule digits_nat_all_digits)
  moreover have "int (read_dec (digits_nat (nat k))) = k"
    using assms by (simp add: read_dec_digits_nat)
  moreover have "hd (digits_nat (nat k)) \<noteq> CHR ''0''"
    using big by (intro digits_nat_no_leading_zero) simp
  moreover have "k < 100 \<longrightarrow> length (digits_nat (nat k)) = 2"
    using big by (auto intro: digits_nat_length_two)
  ultimately show ?thesis
    unfolding p by blast
qed

lemma smod_60_nonneg: "0 \<le> (n::int) \<Longrightarrow> n smod 60 = n mod 60"
  by (cases "n = 0") (simp_all add: signed_modulo_int_def)

lemma formatTime_examples:
  "formatTime 0 = ''00:00''" "formatTime 65 = ''01:05''" "formatTime 3600 = ''60:00''"
  by (simp_all add: formatTime_def signed_modulo_int_def toString_def padStart_def
      digits_nat.simps digit_char_def)

section \<open>Facts about the progress effect\<close>

lemma progressEffect_snap:
  assumes "secs div 60 \<noteq> prevMinuteRef" "\<not> countingDown"
  shows "progressEffect secs countingDown prevMinuteRef
           = ([Assign 0, AssignWithTiming (targetProgress secs) 300], secs div 60)"
  using assms by (simp add: progressEffect_def)

lemma progressEffect_countingDown:
  assumes "countingDown"
  shows "progressEffect secs countingDown prevMinuteRef
           = ([AssignWithTiming (targetProgress secs) 300], prevMinuteRef)"
  using assms by (simp add: progressEffect_def)

lemma progressEffects_countingDown:
  assumes "\<forall>r \<in> set renders. snd r"
  shows "progressEffects renders prevMinuteRef
           = (map (\<lambda>r. AssignWithTiming (targetProgress (fst r)) 300) renders, prevMinuteRef)"
  using assms
proof (induction renders)
  case Nil
  show ?case by simp
next
  case (Cons r renders)
  obtain secs countingDown where r: "r = (secs, countingDown)" by (cases r)
  with Cons.prems have "countingDown" by simp
  then have "progressEffect secs countingDown prevMinuteRef
               = ([AssignWithTiming (targetProgress secs) 300], prevMinuteRef)"
    by (rule progressEffect_countingDown)
  moreover from Cons have "progressEffects renders prevMinuteRef
           = (map (\<lambda>r. AssignWithTiming (targetProgress (fst r)) 300) renders, prevMinuteRef)"
    by simp
  ultimately show ?case by (simp add: r)
qed

section \<open>Countdown after stop\<close>

text \<open>
  C1, as the code has it. Let the timer be running with count \<open>N > 0\<close>. Then \<open>stop\<close>
  clears the running flag, sets the counting-down flag and keeps the count. Each of the
  next \<open>N\<close> ticks lowers the count by one with the counting-down flag still set, so after
  exactly \<open>N\<close> ticks the count is 0 and the timer is still counting down. The tick after
  that, the \<open>(N + 1)\<close>-th, finds the count at 0, clears the counting-down flag and
  leaves the count at 0.
\<close>

theorem stop_then_countdown:
  fixes s :: timer
  assumes "isRunning s" "0 < seconds s"
  shows "isCountingDown (stop s) \<and> \<not> isRunning (stop s) \<and> seconds (stop s) = seconds s
         \<and> (\<forall>k \<le> nat (seconds s).
               isCountingDown ((tick ^^ k) (stop s))
               \<and> seconds ((tick ^^ k) (stop s)) = seconds s - int k)
         \<and> \<not> isCountingDown ((tick ^^ Suc (nat (seconds s))) (stop s))
         \<and> seconds ((tick ^^ Suc (nat (seconds s))) (stop s)) = 0"
proof -
  let ?c = "stop s"
  let ?n = "nat (seconds s)"
  have c: "isCountingDown ?c" "\<not> isRunning ?c" "seconds ?c = seconds s"
    using assms by (simp_all add: stop_def Let_def)
  have during: "(tick ^^ k) ?c = ?c\<lparr>seconds := seconds s - int k\<rparr>" if "k \<le> ?n" for k
  proof -
    from that assms(2) have "int k \<le> seconds ?c" by (simp add: c(3) nat_le_iff)
    with c(1) have "(tick ^^ k) ?c = ?c\<lparr>seconds := seconds ?c - int k\<rparr>"
      by (rule countdown_ticks)
    then show ?thesis by (simp add: c(3))
  qed
  have at_zero: "(tick ^^ ?n) ?c = ?c\<lparr>seconds := 0\<rparr>"
    using during [of ?n] assms(2) by simp
  have "(tick ^^ Suc ?n) ?c = tick (?c\<lparr>seconds := 0\<rparr>)"
    by (simp add: at_zero)
  then have after: "\<not> isCountingDown ((tick ^^ Suc ?n) ?c)" "seconds ((tick ^^ Suc ?n) ?c) = 0"
    using c(1) by (simp_all add: countdown_finish)
  from c during after show ?thesis by simp
qed

theorem stop_then_countdown_witness:
  "isRunning (run [Start, Tick, Tick] initial)
   \<and> 0 < seconds (run [Start, Tick, Tick] initial)
   \<and> isCountingDown ((tick ^^ 2) (stop (run [Start, Tick, Tick] initial)))
   \<and> seconds ((tick ^^ 2) (stop (run [Start, Tick, Tick] initial))) = 0
   \<and> \<not> isCountingDown ((tick ^^ 3) (stop (run [Start, Tick, Tick] initial)))
   \<and> seconds ((tick ^^ 3) (stop (run [Start, Tick, Tick] initial))) = 0"
proof -
  let ?s = "run [Start, Tick, Tick] initial"
  have h: "isRunning ?s" "0 < seconds ?s"
    by (simp_all add: initial_def start_def tick_def useEffect_driver_def)
  have n: "nat (seconds ?s) = 2" "Suc (nat (seconds ?s)) = 3"
    by (simp_all add: initial_def start_def tick_def useEffect_driver_def)
  from stop_then_countdown [OF h] n show ?thesis
    using h by (auto simp del: run_Cons run_Nil)
qed

text \<open>
  With \<open>N\<close> in place of \<open>N + 1\<close> the statement fails: a timer stopped at count 2 is
  still counting down after exactly 2 ticks.
\<close>

theorem stop_then_countdown_counterexample:
  "isRunning (run [Start, Tick, Tick] initial)
   \<and> seconds (run [Start, Tick, Tick] initial) = 2
   \<and> isCountingDown ((tick ^^ 2) (stop (run [Start, Tick, Tick] initial)))"
  by (simp add: initial_def start_def stop_def tick_def useEffect_driver_def
      numeral_2_eq_2)

section \<open>Auto-restart at the end of a countdown\<close>

text \<open>
  C2, as the code has it. Let the timer be counting down with the count at 0 and
  auto-restart on. The next tick leaves the count at 0, clears the counting-down flag and
  sets the running flag; the tick after that one yields count 1 with the timer running. So
  the count stays 0 across exactly one tick at the transition.
\<close>

theorem auto_restart_transition:
  fixes s :: timer
  assumes "isCountingDown s" "seconds s = 0" "isAutoRestart s"
  shows "seconds (tick s) = 0 \<and> isRunning (tick s) \<and> \<not> isCountingDown (tick s)
         \<and> seconds (tick (tick s)) = 1 \<and> isRunning (tick (tick s))
         \<and> \<not> isCountingDown (tick (tick s))"
proof -
  have first: "tick s = s\<lparr>isCountingDown := False, isRunning := True, seconds := 0\<rparr>"
    using assms by (simp add: countdown_finish)
  have "tick (tick s) = (tick s)\<lparr>seconds := seconds (tick s) + 1\<rparr>"
    by (rule running_tick) (simp_all add: first)
  then have second: "tick (tick s) = s\<lparr>isCountingDown := False, isRunning := True, seconds := 1\<rparr>"
    by (simp add: first)
  show ?thesis
    unfolding second unfolding first by simp
qed

theorem auto_restart_transition_witness:
  "isCountingDown (run [ToggleAutoRestart, Start, Tick, Tick, Stop, Tick, Tick] initial)
   \<and> seconds (run [ToggleAutoRestart, Start, Tick, Tick, Stop, Tick, Tick] initial) = 0
   \<and> isAutoRestart (run [ToggleAutoRestart, Start, Tick, Tick, Stop, Tick, Tick] initial)
   \<and> seconds (run [ToggleAutoRestart, Start, Tick, Tick, Stop, Tick, Tick, Tick] initial) = 0
   \<and> isRunning (run [ToggleAutoRestart, Start, Tick, Tick, Stop, Tick, Tick, Tick] initial)
   \<and> seconds (run [ToggleAutoRestart, Start, Tick, Tick, Stop, Tick, Tick, Tick, Tick] initial) = 1"
proof -
  let ?s = "run [ToggleAutoRestart, Start, Tick, Tick, Stop, Tick, Tick] initial"
  have h: "isCountingDown ?s" "seconds ?s = 0" "isAutoRestart ?s"
    by (simp_all add: initial_def toggleAutoRestart_def start_def stop_def tick_def
        useEffect_driver_def)
  have r: "run [ToggleAutoRestart, Start, Tick, Tick, Stop, Tick, Tick, Tick] initial = tick ?s"
          "run [ToggleAutoRestart, Start, Tick, Tick, Stop, Tick, Tick, Tick, Tick] initial
             = tick (tick ?s)"
    by simp_all
  from auto_restart_transition [OF h] show ?thesis
    unfolding r using h by blast
qed

text \<open>
  The tick that follows the count reaching 0 does not yield count 1: after toggling
  auto-restart, running for two ticks, stopping and counting down for two ticks the count is
  0, and the next tick leaves it there.
\<close>

theorem auto_restart_transition_counterexample:
  "isAutoRestart (run [ToggleAutoRestart, Start, Tick, Tick, Stop, Tick, Tick] initial)
   \<and> isCountingDown (run [ToggleAutoRestart, Start, Tick, Tick, Stop, Tick, Tick] initial)
   \<and> seconds (run [ToggleAutoRestart, Start, Tick, Tick, Stop, Tick, Tick] initial) = 0
   \<and> seconds (tick (run [ToggleAutoRestart, Start, Tick, Tick, Stop, Tick, Tick] initial)) \<noteq> 1"
  by (simp add: initial_def toggleAutoRestart_def start_def stop_def tick_def
      useEffect_driver_def)

section \<open>End of a countdown without auto-restart\<close>

text \<open>
  C3, as the code has it. Let the timer be counting down (not running) with the count at 0
  and auto-restart off. The next tick clears the counting-down flag and leaves the running
  flag clear and the count at 0; the status text of that state is "Ready". Every further
  sequence of ticks, \<open>stop\<close>, \<open>reset\<close> and \<open>toggleAutoRestart\<close> keeps the count at 0,
  both flags clear and the status text "Ready"; \<open>start\<close> leads to the running state.
\<close>

theorem countdown_completion_without_autoRestart:
  fixes s :: timer
  assumes "isCountingDown s" "\<not> isRunning s" "seconds s = 0" "\<not> isAutoRestart s"
  shows "\<not> isRunning (tick s) \<and> \<not> isCountingDown (tick s) \<and> seconds (tick s) = 0
         \<and> statusOf (tick s) = ''Ready''
         \<and> (\<forall>evs. Start \<notin> set evs \<longrightarrow>
               displayProps (run evs (tick s)) = (0, False, False)
               \<and> statusOf (run evs (tick s)) = ''Ready'')
         \<and> isRunning (start (tick s)) \<and> statusOf (start (tick s)) = ''Running''"
proof -
  have t: "tick s = s\<lparr>isCountingDown := False, isRunning := False, seconds := 0\<rparr>"
    using assms by (simp add: countdown_finish)
  have idle: "displayProps (tick s) = (0, False, False)"
    by (simp add: t displayProps_def)
  have later: "displayProps (run evs (tick s)) = (0, False, False)
               \<and> statusOf (run evs (tick s)) = ''Ready''" if "Start \<notin> set evs" for evs
    using idle_run [OF idle that] by (simp add: idle_status)
  have started: "isRunning (start (tick s))" "statusOf (start (tick s)) = ''Running''"
    by (simp_all add: t start_def statusOf_def displayProps_def getStatusText_def)
  have now: "\<not> isRunning (tick s)" "\<not> isCountingDown (tick s)" "seconds (tick s) = 0"
    by (simp_all add: t)
  from now idle_status [OF idle] later started show ?thesis by blast
qed

theorem countdown_completion_without_autoRestart_witness:
  "isCountingDown (run [Start, Tick, Tick, Stop, Tick, Tick] initial)
   \<and> \<not> isRunning (run [Start, Tick, Tick, Stop, Tick, Tick] initial)
   \<and> seconds (run [Start, Tick, Tick, Stop, Tick, Tick] initial) = 0
   \<and> \<not> isAutoRestart (run [Start, Tick, Tick, Stop, Tick, Tick] initial)
   \<and> statusOf (tick (run [Start, Tick, Tick, Stop, Tick, Tick] initial)) = ''Ready''
   \<and> statusOf (run [Tick, Stop, ToggleAutoRestart, Tick, Reset]
                 (tick (run [Start, Tick, Tick, Stop, Tick, Tick] initial))) = ''Ready''"
proof -
  let ?s = "run [Start, Tick, Tick, Stop, Tick, Tick] initial"
  have h: "isCountingDown ?s" "\<not> isRunning ?s" "seconds ?s = 0" "\<not> isAutoRestart ?s"
    by (simp_all add: initial_def start_def stop_def tick_def useEffect_driver_def)
  have e: "Start \<notin> set [Tick, Stop, ToggleAutoRestart, Tick, Reset]"
    by simp
  from countdown_completion_without_autoRestart [OF h] e h show ?thesis
    by blast
qed

text \<open>
  The state after such a countdown is not reported as "Stopped": when the count has
  reached 0 the status text is still "Counting Down", and after the next tick it is
  "Ready".
\<close>

theorem countdown_completion_status_counterexample:
  "\<not> isAutoRestart (run [Start, Tick, Tick, Stop, Tick, Tick] initial)
   \<and> seconds (run [Start, Tick, Tick, Stop, Tick, Tick] initial) = 0
   \<and> statusOf (run [Start, Tick, Tick, Stop, Tick, Tick] initial) = ''Counting Down''
   \<and> statusOf (tick (run [Start, Tick, Tick, Stop, Tick, Tick] initial)) = ''Ready''
   \<and> statusOf (tick (run [Start, Tick, Tick, Stop, Tick, Tick] initial)) \<noteq> ''Stopped''"
  by (simp add: initial_def start_def stop_def tick_def useEffect_driver_def
      statusOf_def displayProps_def getStatusText_def)

section \<open>Count is never negative\<close>

text \<open>
  C4. In every execution from the initial state (any sequence of \<open>start\<close>, \<open>stop\<close>,
  \<open>reset\<close>, \<open>toggleAutoRestart\<close> and ticks) the count is a non-negative integer, and
  a tick taken while counting down never yields a count below 0, whatever the count was
  before.
\<close>

theorem count_never_negative:
  "0 \<le> seconds (run evs initial)
   \<and> (\<forall>s :: timer. isCountingDown s \<longrightarrow> 0 \<le> seconds (tick s))"
proof
  show "0 \<le> seconds (run evs initial)"
    by (rule run_seconds_nonneg) (simp add: initial_def)
  show "\<forall>s :: timer. isCountingDown s \<longrightarrow> 0 \<le> seconds (tick s)"
    by (simp add: countdown_tick_nonneg)
qed

theorem count_never_negative_witness:
  "0 \<le> seconds (run [Start, Tick, Tick, Stop, Tick, Tick, Tick, Tick] initial)
   \<and> isCountingDown \<lparr>seconds = 0, isRunning = False, isCountingDown = True, isAutoRestart = False\<rparr>
   \<and> 0 \<le> seconds (tick \<lparr>seconds = 0, isRunning = False, isCountingDown = True, isAutoRestart = False\<rparr>)"
  using count_never_negative [of "[Start, Tick, Tick, Stop, Tick, Tick, Tick, Tick]"]
  by simp

section \<open>Direction of a tick\<close>

text \<open>
  C5, as the code has it. A tick taken while running (and not counting down) raises the
  count by one. A tick taken while counting down with a positive count lowers it by one,
  stays at or above 0 and keeps counting down. A tick taken while counting down with the
  count at 0 leaves it at 0 and ends the countdown.
\<close>

theorem tick_direction:
  fixes s :: timer
  shows "(isRunning s \<and> \<not> isCountingDown s \<longrightarrow>
            seconds (tick s) = seconds s + 1 \<and> seconds s < seconds (tick s))
         \<and> (isCountingDown s \<and> 0 < seconds s \<longrightarrow>
              seconds (tick s) = seconds s - 1 \<and> seconds (tick s) < seconds s
              \<and> 0 \<le> seconds (tick s) \<and> isCountingDown (tick s))
         \<and> (isCountingDown s \<and> seconds s = 0 \<longrightarrow>
              seconds (tick s) = 0 \<and> \<not> isCountingDown (tick s))"
  by (simp add: tick_def useEffect_driver_def Let_def)

theorem tick_direction_witness:
  "seconds (tick \<lparr>seconds = 7, isRunning = True, isCountingDown = False, isAutoRestart = False\<rparr>) = 8
   \<and> seconds (tick \<lparr>seconds = 7, isRunning = False, isCountingDown = True, isAutoRestart = False\<rparr>) = 6
   \<and> seconds (tick \<lparr>seconds = 0, isRunning = False, isCountingDown = True, isAutoRestart = False\<rparr>) = 0
   \<and> \<not> isCountingDown
         (tick \<lparr>seconds = 0, isRunning = False, isCountingDown = True, isAutoRestart = False\<rparr>)"
  using
    tick_direction [of "\<lparr>seconds = 7, isRunning = True, isCountingDown = False, isAutoRestart = False\<rparr>"]
    tick_direction [of "\<lparr>seconds = 7, isRunning = False, isCountingDown = True, isAutoRestart = False\<rparr>"]
    tick_direction [of "\<lparr>seconds = 0, isRunning = False, isCountingDown = True, isAutoRestart = False\<rparr>"]
  by simp

text \<open>
  Not every tick of a countdown lowers the count: after one second of running, \<open>stop\<close>
  and one tick the timer is counting down at count 0, and the next tick does not lower
  it.
\<close>

theorem tick_direction_counterexample:
  "isCountingDown (run [Start, Tick, Stop, Tick] initial)
   \<and> \<not> seconds (tick (run [Start, Tick, Stop, Tick] initial))
          < seconds (run [Start, Tick, Stop, Tick] initial)"
  by (simp add: initial_def start_def stop_def tick_def useEffect_driver_def)

section \<open>Minute rollover\<close>

text \<open>
  C6. In one run of the progress effect: if \<open>floor(seconds / 60)\<close> differs from
  \<open>prevMinuteRef\<close> and the timer is not counting down, the shared value is first set to 0
  outright and then given the eased animation towards the new target, and
  \<open>prevMinuteRef\<close> becomes the current minute. If the timer is counting down, the only
  write is the eased animation and \<open>prevMinuteRef\<close> stays; this holds for every run of
  any sequence of renders made while counting down.
\<close>

theorem minute_rollover_snap:
  "(secs div 60 \<noteq> prevMinuteRef \<and> \<not> countingDown \<longrightarrow>
      progressEffect secs countingDown prevMinuteRef
        = ([Assign 0, AssignWithTiming (targetProgress secs) 300], secs div 60))
   \<and> (countingDown \<longrightarrow>
      progressEffect secs countingDown prevMinuteRef
        = ([AssignWithTiming (targetProgress secs) 300], prevMinuteRef))
   \<and> ((\<forall>r \<in> set renders. snd r) \<longrightarrow>
      progressEffects renders prevMinuteRef
        = (map (\<lambda>r. AssignWithTiming (targetProgress (fst r)) 300) renders, prevMinuteRef))"
  using progressEffect_snap progressEffect_countingDown progressEffects_countingDown
  by blast

theorem minute_rollover_snap_witness:
  "60 div 60 \<noteq> (0::int)
   \<and> progressEffect 60 False 0 = ([Assign 0, AssignWithTiming 0 300], 1)
   \<and> progressEffect 59 True 1
        = ([AssignWithTiming (targetProgress 59) 300], 1)
   \<and> progressEffects [(61, True), (60, True), (59, True)] 1
        = ([AssignWithTiming (targetProgress 61) 300, AssignWithTiming (targetProgress 60) 300,
            AssignWithTiming (targetProgress 59) 300], 1)"
proof -
  have t: "targetProgress 60 = 0"
    by (simp add: targetProgress_def signed_modulo_int_def)
  have d: "60 div 60 \<noteq> (0::int)" "(60::int) div 60 = 1" by simp_all
  have c: "\<forall>r \<in> set [(61::int, True), (60, True), (59, True)]. snd r" by simp
  from minute_rollover_snap [of 60 0 False "[]"] d
  have a: "progressEffect 60 False 0 = ([Assign 0, AssignWithTiming 0 300], 1)"
    by (simp add: t)
  from minute_rollover_snap [of 59 1 True "[(61, True), (60, True), (59, True)]"] c
  have b: "progressEffect 59 True 1 = ([AssignWithTiming (targetProgress 59) 300], 1)"
          "progressEffects [(61, True), (60, True), (59, True)] 1
        = ([AssignWithTiming (targetProgress 61) 300, AssignWithTiming (targetProgress 60) 300,
            AssignWithTiming (targetProgress 59) 300], 1)"
    by simp_all
  from a b d(1) show ?thesis by blast
qed

section \<open>Status text\<close>

text \<open>
  C7. The status text depends only on the three props: it is "Counting Down" whenever
  \<open>isCountingDown\<close> holds; otherwise "Running" whenever \<open>isRunning\<close> holds; otherwise
  "Ready" when the count is 0; otherwise "Stopped".
\<close>

theorem status_text_cases:
  "(countingDown \<longrightarrow> getStatusText secs running countingDown = ''Counting Down'')
   \<and> (\<not> countingDown \<and> running \<longrightarrow> getStatusText secs running countingDown = ''Running'')
   \<and> (\<not> countingDown \<and> \<not> running \<and> secs = 0 \<longrightarrow>
         getStatusText secs running countingDown = ''Ready'')
   \<and> (\<not> countingDown \<and> \<not> running \<and> secs \<noteq> 0 \<longrightarrow>
         getStatusText secs running countingDown = ''Stopped'')"
  by (simp add: getStatusText_def)

theorem status_text_cases_witness:
  "getStatusText 5 True True = ''Counting Down''
   \<and> getStatusText 5 True False = ''Running''
   \<and> getStatusText 0 False False = ''Ready''
   \<and> getStatusText 5 False False = ''Stopped''"
  using
    status_text_cases [where countingDown = True and running = True and secs = 5]
    status_text_cases [where countingDown = False and running = True and secs = 5]
    status_text_cases [where countingDown = False and running = False and secs = 0]
    status_text_cases [where countingDown = False and running = False and secs = 5]
  by simp

section \<open>Reset\<close>

text \<open>
  C8. From any state, \<open>reset\<close> sets the count to 0 and clears both the running and the
  counting-down flag, so that no driver is registered and the status text is "Ready", and
  it leaves the auto-restart flag as it was.
\<close>

theorem reset_clears_all_but_autoRestart:
  fixes s :: timer
  shows "seconds (reset s) = 0 \<and> \<not> isRunning (reset s) \<and> \<not> isCountingDown (reset s)
         \<and> useEffect_driver (reset s) = None
         \<and> statusOf (reset s) = ''Ready''
         \<and> isAutoRestart (reset s) = isAutoRestart s"
  by (simp add: reset_def useEffect_driver_def statusOf_def displayProps_def getStatusText_def)

section \<open>Label\<close>

text \<open>
  C9. For every count \<open>n \<ge> 0\<close> the label is a minutes field, a colon and a seconds
  field. The minutes field consists of decimal digits, has at least two of them, starts with
  a zero only when it has exactly two, and denotes \<open>floor(n / 60)\<close>, not reduced
  modulo 60. The seconds field consists of exactly two decimal digits and denotes
  \<open>n mod 60\<close>, which is at most 59. The labels of 0, 65 and 3600 are "00:00", "01:05" and
  "60:00".
\<close>

theorem formatTime_label:
  assumes "0 \<le> n"
  shows "(\<exists>m s. formatTime n = m @ '':'' @ s
            \<and> 2 \<le> length m \<and> list_all is_digit m \<and> int (read_dec m) = n div 60
            \<and> (2 < length m \<longrightarrow> hd m \<noteq> CHR ''0'')
            \<and> length s = 2 \<and> list_all is_digit s \<and> int (read_dec s) = n mod 60
            \<and> read_dec s \<le> 59)
         \<and> formatTime 0 = ''00:00'' \<and> formatTime 65 = ''01:05''
         \<and> formatTime 3600 = ''60:00''"
proof -
  let ?m = "padStart 2 ''0'' (toString (n div 60))"
  let ?s = "padStart 2 ''0'' (toString (n mod 60))"
  from assms have mins: "0 \<le> n div 60" by simp
  have secs: "0 \<le> n mod 60" "n mod 60 < 100" "n mod 60 \<le> 59" by simp_all
  have split: "formatTime n = ?m @ '':'' @ ?s"
    using assms by (simp add: formatTime_def smod_60_nonneg)
  from field_props [OF mins]
  have m: "2 \<le> length ?m" "list_all is_digit ?m" "int (read_dec ?m) = n div 60"
          "2 < length ?m \<longrightarrow> hd ?m \<noteq> CHR ''0''"
    by blast+
  from field_props [OF secs(1)] secs(2)
  have s: "length ?s = 2" "list_all is_digit ?s" "int (read_dec ?s) = n mod 60"
    by blast+
  from s(3) secs(3) have bound: "read_dec ?s \<le> 59" by linarith
  from split m s bound
  have "\<exists>m s. formatTime n = m @ '':'' @ s
            \<and> 2 \<le> length m \<and> list_all is_digit m \<and> int (read_dec m) = n div 60
            \<and> (2 < length m \<longrightarrow> hd m \<noteq> CHR ''0'')
            \<and> length s = 2 \<and> list_all is_digit s \<and> int (read_dec s) = n mod 60
            \<and> read_dec s \<le> 59"
    by blast
  with formatTime_examples show ?thesis by blast
qed

theorem formatTime_label_witness:
  "(0::int) \<le> 3725
   \<and> (\<exists>m s. formatTime 3725 = m @ '':'' @ s \<and> int (read_dec m) = 62 \<and> length s = 2
         \<and> int (read_dec s) = 5)
   \<and> formatTime 3725 = ''62:05''"
proof -
  have h: "(0::int) \<le> 3725" by simp
  have v: "formatTime 3725 = ''62:05''"
    by (simp add: formatTime_def signed_modulo_int_def toString_def padStart_def
        digits_nat.simps digit_char_def)
  from formatTime_label [OF h]
  have "\<exists>m s. formatTime 3725 = m @ '':'' @ s \<and> int (read_dec m) = 62 \<and> length s = 2
         \<and> int (read_dec s) = 5"
    by simp blast
  with h v show ?thesis by blast
qed

section \<open>Ready and stopped at count 0\<close>

text \<open>
  C10. Every execution from the initial state that ends with the count at 0 and both the
  running and the counting-down flag clear hands the display the same props
  \<open>(seconds, isRunning, isCountingDown)\<close> as the initial state, and the status text is
  "Ready", not "Stopped". The three ways into such a state all give it: \<open>reset\<close> from
  any state, \<open>stop\<close> while running at count 0, and the tick that ends a countdown with
  auto-restart off.
\<close>

theorem no_distinct_stopped_at_zero:
  "(seconds (run evs initial) = 0 \<and> \<not> isRunning (run evs initial)
      \<and> \<not> isCountingDown (run evs initial) \<longrightarrow>
        displayProps (run evs initial) = displayProps initial
        \<and> statusOf (run evs initial) = ''Ready''
        \<and> statusOf (run evs initial) \<noteq> ''Stopped'')
   \<and> (\<forall>s :: timer. displayProps (reset s) = displayProps initial
         \<and> statusOf (reset s) = ''Ready'')
   \<and> (\<forall>s :: timer. isRunning s \<and> \<not> isCountingDown s \<and> seconds s = 0 \<longrightarrow>
         displayProps (stop s) = displayProps initial \<and> statusOf (stop s) = ''Ready'')
   \<and> (\<forall>s :: timer. isCountingDown s \<and> \<not> isRunning s \<and> seconds s \<le> 0
         \<and> \<not> isAutoRestart s \<longrightarrow>
         displayProps (tick s) = displayProps initial \<and> statusOf (tick s) = ''Ready'')"
proof (intro conjI allI impI)
  assume "seconds (run evs initial) = 0 \<and> \<not> isRunning (run evs initial)
      \<and> \<not> isCountingDown (run evs initial)"
  then have idle: "displayProps (run evs initial) = (0, False, False)"
    by (simp add: displayProps_def)
  then show "displayProps (run evs initial) = displayProps initial"
    by (simp add: displayProps_initial)
  from idle show ready: "statusOf (run evs initial) = ''Ready''"
    by (rule idle_status)
  then show "statusOf (run evs initial) \<noteq> ''Stopped''"
    by simp
next
  fix s :: timer
  have idle: "displayProps (reset s) = (0, False, False)"
    by (simp add: displayProps_def reset_def)
  then show "displayProps (reset s) = displayProps initial"
    by (simp add: displayProps_initial)
  from idle show "statusOf (reset s) = ''Ready''"
    by (rule idle_status)
next
  fix s :: timer
  assume "isRunning s \<and> \<not> isCountingDown s \<and> seconds s = 0"
  then have idle: "displayProps (stop s) = (0, False, False)"
    by (simp add: displayProps_def stop_def)
  then show "displayProps (stop s) = displayProps initial"
    by (simp add: displayProps_initial)
  from idle show "statusOf (stop s) = ''Ready''"
    by (rule idle_status)
next
  fix s :: timer
  assume "isCountingDown s \<and> \<not> isRunning s \<and> seconds s \<le> 0 \<and> \<not> isAutoRestart s"
  then have idle: "displayProps (tick s) = (0, False, False)"
    by (simp add: displayProps_def countdown_finish)
  then show "displayProps (tick s) = displayProps initial"
    by (simp add: displayProps_initial)
  from idle show "statusOf (tick s) = ''Ready''"
    by (rule idle_status)
qed

theorem no_distinct_stopped_at_zero_witness:
  "seconds (run [Start, Tick, Tick, Stop, Tick, Tick, Tick] initial) = 0
   \<and> \<not> isRunning (run [Start, Tick, Tick, Stop, Tick, Tick, Tick] initial)
   \<and> \<not> isCountingDown (run [Start, Tick, Tick, Stop, Tick, Tick, Tick] initial)
   \<and> statusOf (run [Start, Tick, Tick, Stop, Tick, Tick, Tick] initial) = ''Ready''
   \<and> statusOf (stop (run [Start] initial)) = ''Ready''
   \<and> statusOf (tick (run [Start, Tick, Stop, Tick] initial)) = ''Ready''"
proof -
  let ?a = "run [Start, Tick, Tick, Stop, Tick, Tick, Tick] initial"
  let ?b = "run [Start] initial"
  let ?c = "run [Start, Tick, Stop, Tick] initial"
  have a: "seconds ?a = 0 \<and> \<not> isRunning ?a \<and> \<not> isCountingDown ?a"
    by (simp add: initial_def start_def stop_def tick_def useEffect_driver_def)
  have b: "isRunning ?b \<and> \<not> isCountingDown ?b \<and> seconds ?b = 0"
    by (simp add: initial_def start_def)
  have c: "isCountingDown ?c \<and> \<not> isRunning ?c \<and> seconds ?c \<le> 0 \<and> \<not> isAutoRestart ?c"
    by (simp add: initial_def start_def stop_def tick_def useEffect_driver_def)
  from no_distinct_stopped_at_zero [of "[Start, Tick, Tick, Stop, Tick, Tick, Tick]"] a b c
  show ?thesis by blast
qed

end
